theory Spec2Isabelle
  imports Main "HOL-Library.Word" "HOL-Library.State_Monad"
begin

section \<open>The C types of CCompressZlib.h\<close>

text \<open>
  The header \<^verbatim>\<open>Sources/CCompressZlib/include/CCompressZlib.h\<close> defines three
  \<^verbatim>\<open>static inline\<close> functions over types that \<^verbatim>\<open>zlib.h\<close> declares.
  A C \<^verbatim>\<open>int\<close> is a 32-bit word (read as signed by \<open>sint\<close>). A pointer is an address
  tagged with the type it points to; the tag is a phantom, so that a cast changes the
  tag and nothing else. Addresses are natural numbers: the header does not depend on
  the width of a pointer.
\<close>

type_synonym c_int = "32 word"

datatype 'a ptr = Ptr (ptr_val: nat)

definition NULL :: "'a ptr" where
  "NULL = Ptr 0"

text \<open>The C cast \<^verbatim>\<open>(T *)p\<close> between object pointer types.\<close>

definition ptr_coerce :: "'a ptr \<Rightarrow> 'b ptr" where
  "ptr_coerce p = Ptr (ptr_val p)"

text \<open>
  \<^verbatim>\<open>z_stream\<close> is a struct of \<^verbatim>\<open>zlib.h\<close>; the header only passes pointers to it
  along, so the struct stays opaque. \<^verbatim>\<open>Bytef\<close> is zlib's name for
  \<^verbatim>\<open>unsigned char\<close>, and \<^verbatim>\<open>void\<close> has no values of interest.
\<close>

typedecl z_stream

type_synonym z_streamp = "z_stream ptr"
type_synonym Bytef = "8 word"
type_synonym void = unit

section \<open>The zlib entry points the header calls\<close>

text \<open>
  \<^verbatim>\<open>deflateInit2\<close> and \<^verbatim>\<open>inflateInit2\<close> belong to zlib, not to this
  repository. They are parameters of the model: any two computations over any program
  state \<open>'s\<close> (the memory, the \<^verbatim>\<open>z_stream\<close> that \<^verbatim>\<open>strm\<close> points to, zlib's
  own globals), each returning a C \<^verbatim>\<open>int\<close>. A C function is a computation in the
  state monad: it takes the program state and returns its result with the new state.
\<close>

record 's zlib =
  deflateInit2 :: "z_streamp \<Rightarrow> c_int \<Rightarrow> c_int \<Rightarrow> c_int \<Rightarrow> c_int \<Rightarrow> c_int \<Rightarrow> ('s, c_int) state"
  inflateInit2 :: "z_streamp \<Rightarrow> c_int \<Rightarrow> ('s, c_int) state"

section \<open>The three functions of the header\<close>

text \<open>
  \<^verbatim>\<open>
  static inline int CCompressZlib_deflateInit2(z_streamp strm, int level, int method,
                                               int windowBits, int memLevel,
                                               int strategy) {
      return deflateInit2(strm, level, method, windowBits, memLevel, strategy);
  }
  \<close>
\<close>

definition CCompressZlib_deflateInit2 ::
  "('s, 'z) zlib_scheme \<Rightarrow> z_streamp \<Rightarrow> c_int \<Rightarrow> c_int \<Rightarrow> c_int \<Rightarrow> c_int \<Rightarrow> c_int
     \<Rightarrow> ('s, c_int) state" where
  "CCompressZlib_deflateInit2 zl strm level method windowBits memLevel strategy =
     do {
       r \<leftarrow> deflateInit2 zl strm level method windowBits memLevel strategy;
       State_Monad.return r
     }"

text \<open>
  \<^verbatim>\<open>
  static inline int CCompressZlib_inflateInit2(z_streamp strm, int windowBits) {
      return inflateInit2(strm, windowBits);
  }
  \<close>
\<close>

definition CCompressZlib_inflateInit2 ::
  "('s, 'z) zlib_scheme \<Rightarrow> z_streamp \<Rightarrow> c_int \<Rightarrow> ('s, c_int) state" where
  "CCompressZlib_inflateInit2 zl strm windowBits =
     do {
       r \<leftarrow> inflateInit2 zl strm windowBits;
       State_Monad.return r
     }"

text \<open>
  \<^verbatim>\<open>
  static inline Bytef *CCompressZlib_voidPtr_to_BytefPtr(void *in) {
      return (Bytef *)in;
  }
  \<close>
  Like every C function it is embedded as a computation over the program state, so that
  leaving the state alone is a theorem about it and not a choice of its type.
\<close>

definition CCompressZlib_voidPtr_to_BytefPtr :: "void ptr \<Rightarrow> ('s, Bytef ptr) state" where
  "CCompressZlib_voidPtr_to_BytefPtr in_ptr = State_Monad.return (ptr_coerce in_ptr)"

section \<open>A recording stand-in for zlib\<close>

text \<open>
  To run the wrappers, zlib is replaced by a stand-in whose state is the list of the
  calls it has received, each with its arguments in the order of the C prototype.
  Its return values are arbitrary, chosen to tell the two entry points apart.
\<close>

datatype zlib_call =
    DeflateInit2_call z_streamp c_int c_int c_int c_int c_int
  | InflateInit2_call z_streamp c_int

definition recording_zlib :: "(zlib_call list) zlib" where
  "recording_zlib =
     \<lparr> deflateInit2 = (\<lambda>strm level method windowBits memLevel strategy.
         State (\<lambda>calls.
           (level + 1, calls @ [DeflateInit2_call strm level method windowBits memLevel strategy]))),
       inflateInit2 = (\<lambda>strm windowBits.
         State (\<lambda>calls. (windowBits + 2, calls @ [InflateInit2_call strm windowBits]))) \<rparr>"

section \<open>The wrappers on the recording stand-in\<close>

lemma deflateInit2_recorded:
  "run_state (CCompressZlib_deflateInit2 recording_zlib (Ptr 4096) 6 8 15 9 0) []
     = (7, [DeflateInit2_call (Ptr 4096) 6 8 15 9 0])"
  by (simp add: CCompressZlib_deflateInit2_def recording_zlib_def)

lemma inflateInit2_recorded:
  "run_state (CCompressZlib_inflateInit2 recording_zlib (Ptr 4096) 31) []
     = (33, [InflateInit2_call (Ptr 4096) 31])"
  by (simp add: CCompressZlib_inflateInit2_def recording_zlib_def)

lemma voidPtr_to_BytefPtr_at_4096:
  "run_state (CCompressZlib_voidPtr_to_BytefPtr (Ptr 4096)) [InflateInit2_call (Ptr 4096) 31]
     = (Ptr 4096, [InflateInit2_call (Ptr 4096) 31])"
  by (simp add: CCompressZlib_voidPtr_to_BytefPtr_def ptr_coerce_def)

section \<open>The init wrappers forward to zlib\<close>

text \<open>
  C1. For every zlib, every program state and every argument tuple,
  \<^verbatim>\<open>CCompressZlib_deflateInit2(strm, level, method, windowBits, memLevel, strategy)\<close>
  returns the value that zlib's \<^verbatim>\<open>deflateInit2\<close> returns on the same arguments in
  the same order, and \<^verbatim>\<open>CCompressZlib_inflateInit2(strm, windowBits)\<close> returns the
  value that zlib's \<^verbatim>\<open>inflateInit2\<close> returns on the same arguments: the wrappers
  forward their arguments unchanged and compute nothing of their own.
\<close>

theorem init_wrappers_return_zlib_value:
  "fst (run_state (CCompressZlib_deflateInit2 zl strm level method windowBits memLevel strategy) s)
     = fst (run_state (deflateInit2 zl strm level method windowBits memLevel strategy) s)
   \<and> fst (run_state (CCompressZlib_inflateInit2 zl strm windowBits) s)
     = fst (run_state (inflateInit2 zl strm windowBits) s)"
  by (simp add: CCompressZlib_deflateInit2_def CCompressZlib_inflateInit2_def)

text \<open>
  C10. The program state after \<^verbatim>\<open>CCompressZlib_deflateInit2\<close> or
  \<^verbatim>\<open>CCompressZlib_inflateInit2\<close> is the state that the one forwarded zlib call
  leaves, from every starting state: whatever happens to the \<^verbatim>\<open>z_stream\<close> behind
  \<^verbatim>\<open>strm\<close>, or to any other memory, is the effect of \<^verbatim>\<open>deflateInit2\<close> or
  \<^verbatim>\<open>inflateInit2\<close> and nothing more.
\<close>

theorem init_wrappers_effect_is_zlib_effect:
  "snd (run_state (CCompressZlib_deflateInit2 zl strm level method windowBits memLevel strategy) s)
     = snd (run_state (deflateInit2 zl strm level method windowBits memLevel strategy) s)
   \<and> snd (run_state (CCompressZlib_inflateInit2 zl strm windowBits) s)
     = snd (run_state (inflateInit2 zl strm windowBits) s)"
  by (simp add: CCompressZlib_deflateInit2_def CCompressZlib_inflateInit2_def)

section \<open>The pointer cast\<close>

text \<open>
  C2. For every pointer \<open>p\<close> of type \<^verbatim>\<open>void *\<close>, and from every program state,
  \<^verbatim>\<open>CCompressZlib_voidPtr_to_BytefPtr(p)\<close> returns a \<^verbatim>\<open>Bytef *\<close> with the
  address of \<open>p\<close>; in particular it maps \<^verbatim>\<open>NULL\<close> to \<^verbatim>\<open>NULL\<close>.
\<close>

theorem voidPtr_to_BytefPtr_same_address:
  "ptr_val (fst (run_state (CCompressZlib_voidPtr_to_BytefPtr p) s)) = ptr_val p
   \<and> fst (run_state (CCompressZlib_voidPtr_to_BytefPtr NULL) s) = NULL"
  by (simp add: CCompressZlib_voidPtr_to_BytefPtr_def ptr_coerce_def NULL_def)

text \<open>
  C9. \<^verbatim>\<open>CCompressZlib_voidPtr_to_BytefPtr\<close> is total and free of side effects: for
  every argument \<open>p\<close> (\<^verbatim>\<open>NULL\<close> too) and every program state \<open>s\<close> it returns
  a pointer \<open>q\<close> and leaves \<open>s\<close> as it was, and from any other state \<open>s'\<close> it
  returns the same \<open>q\<close>, so the result does not depend on what memory holds (the
  argument is never dereferenced). The computation has no error branch: its result is
  a value in every case.
\<close>

theorem voidPtr_to_BytefPtr_total_and_pure:
  "\<exists>q. run_state (CCompressZlib_voidPtr_to_BytefPtr p) s = (q, s)
        \<and> run_state (CCompressZlib_voidPtr_to_BytefPtr p) s' = (q, s')"
  by (simp add: CCompressZlib_voidPtr_to_BytefPtr_def)

end
